theory Spec2Isabelle
  imports Complex_Main "HOL-Library.Word"
begin

section \<open>The gemc output factory: records of outputFactory.h\<close>

subsection \<open>C++ scalars\<close>

text \<open>
  A C++ \<open>int\<close> is a 32-bit two's complement word, read with \<open>sint\<close>.

  A C++ \<open>double\<close> is a finite value or one of the special values of IEEE 754. The
  finite values are taken from the reals (every binary64 value is one), with the negative
  zero kept apart. The header does no floating-point arithmetic: it stores doubles, copies
  them, writes the literals \<open>0\<close>, \<open>-1\<close> and \<open>-99\<close>, and casts an \<open>int\<close> to a
  \<open>double\<close>, which is exact for every 32-bit integer.
\<close>

type_synonym cint = "32 word"

datatype double = Finite real | NegZero | PosInf | NegInf | NaN

definition double_of_int :: "cint \<Rightarrow> double" where
  \<comment> \<open>the cast \<open>(double) i\<close>\<close>
  "double_of_int i = Finite (real_of_int (sint i))"

fun double_less :: "double \<Rightarrow> double \<Rightarrow> bool" where
  \<comment> \<open>the comparison \<open>a < b\<close> on doubles: false as soon as one side is NaN, and the two zeros are equal\<close>
  "double_less NaN _ = False"
| "double_less _ NaN = False"
| "double_less PosInf _ = False"
| "double_less _ NegInf = False"
| "double_less _ PosInf = True"
| "double_less NegInf _ = True"
| "double_less (Finite a) (Finite b) = (a < b)"
| "double_less (Finite a) NegZero = (a < 0)"
| "double_less NegZero (Finite b) = (0 < b)"
| "double_less NegZero NegZero = False"

subsection \<open>std::map\<close>

text \<open>
  A \<open>std::map<K, V>\<close> is a partial function from keys to values. \<open>m.find(k) != m.end()\<close>
  is \<open>k \<in> dom m\<close>. The subscript \<open>m[k]\<close> is not a pure read: on a key that is absent it
  inserts a value-initialised entry first, so it returns the map as well as the entry.
\<close>

definition map_contains :: "('k \<rightharpoonup> 'v) \<Rightarrow> 'k \<Rightarrow> bool" where
  "map_contains m k = (m k \<noteq> None)"

definition map_subscript :: "'v \<Rightarrow> ('k \<rightharpoonup> 'v) \<Rightarrow> 'k \<Rightarrow> 'v \<times> ('k \<rightharpoonup> 'v)" where
  \<comment> \<open>\<open>m[k]\<close>, the first argument being the value-initialised \<open>V()\<close>\<close>
  "map_subscript dflt m k =
     (case m k of Some v \<Rightarrow> (v, m) | None \<Rightarrow> (dflt, m(k \<mapsto> dflt)))"

definition map_subscript_assign :: "'v \<Rightarrow> ('k \<rightharpoonup> 'v) \<Rightarrow> 'k \<Rightarrow> 'v \<Rightarrow> ('k \<rightharpoonup> 'v)" where
  \<comment> \<open>\<open>m[k] = v\<close>: the subscript, then the assignment through the reference it returns\<close>
  "map_subscript_assign dflt m k v = (snd (map_subscript dflt m k))(k \<mapsto> v)"

abbreviation double_zero :: double where
  "double_zero \<equiv> Finite 0"

subsection \<open>class hitOutput\<close>

record hitOutput =
  raws :: "string \<rightharpoonup> double"
  dgtz :: "string \<rightharpoonup> double"
  allRaws :: "string \<rightharpoonup> double list"
  signalVT :: "double \<rightharpoonup> double"
  quantumS :: "cint \<rightharpoonup> cint"
  multiDgt :: "string \<rightharpoonup> cint list"

definition setRaws :: "hitOutput \<Rightarrow> (string \<rightharpoonup> double) \<Rightarrow> hitOutput" where
  "setRaws h r = h\<lparr>raws := r\<rparr>"

definition setDgtz :: "hitOutput \<Rightarrow> (string \<rightharpoonup> double) \<Rightarrow> hitOutput" where
  "setDgtz h d = h\<lparr>dgtz := d\<rparr>"

definition setAllRaws :: "hitOutput \<Rightarrow> (string \<rightharpoonup> double list) \<Rightarrow> hitOutput" where
  "setAllRaws h r = h\<lparr>allRaws := r\<rparr>"

definition setSignal :: "hitOutput \<Rightarrow> (double \<rightharpoonup> double) \<Rightarrow> hitOutput" where
  "setSignal h s = h\<lparr>signalVT := s\<rparr>"

definition setQuantumS :: "hitOutput \<Rightarrow> (cint \<rightharpoonup> cint) \<Rightarrow> hitOutput" where
  "setQuantumS h s = h\<lparr>quantumS := s\<rparr>"

definition setMultiDgt :: "hitOutput \<Rightarrow> (string \<rightharpoonup> cint list) \<Rightarrow> hitOutput" where
  "setMultiDgt h d = h\<lparr>multiDgt := d\<rparr>"

text \<open>The two overloads of \<open>setOneRaw\<close> and of \<open>setOneDgt\<close> are told apart by a suffix.\<close>

definition setOneRaw :: "hitOutput \<Rightarrow> string \<Rightarrow> double \<Rightarrow> hitOutput" where
  "setOneRaw h s d = h\<lparr>raws := map_subscript_assign double_zero (raws h) s d\<rparr>"

definition setOneRaw_int :: "hitOutput \<Rightarrow> string \<Rightarrow> cint \<Rightarrow> hitOutput" where
  "setOneRaw_int h s i = h\<lparr>raws := map_subscript_assign double_zero (raws h) s (double_of_int i)\<rparr>"

definition setOneDgt :: "hitOutput \<Rightarrow> string \<Rightarrow> double \<Rightarrow> hitOutput" where
  "setOneDgt h s d = h\<lparr>dgtz := map_subscript_assign double_zero (dgtz h) s d\<rparr>"

definition setOneDgt_int :: "hitOutput \<Rightarrow> string \<Rightarrow> cint \<Rightarrow> hitOutput" where
  "setOneDgt_int h s i = h\<lparr>dgtz := map_subscript_assign double_zero (dgtz h) s (double_of_int i)\<rparr>"

text \<open>The getters return their container by value.\<close>

definition getRaws :: "hitOutput \<Rightarrow> (string \<rightharpoonup> double)" where
  "getRaws h = raws h"

definition getDgtz :: "hitOutput \<Rightarrow> (string \<rightharpoonup> double)" where
  "getDgtz h = dgtz h"

definition getAllRaws :: "hitOutput \<Rightarrow> (string \<rightharpoonup> double list)" where
  "getAllRaws h = allRaws h"

definition getSignalVT :: "hitOutput \<Rightarrow> (double \<rightharpoonup> double)" where
  "getSignalVT h = signalVT h"

definition getQuantumS :: "hitOutput \<Rightarrow> (cint \<rightharpoonup> cint)" where
  "getQuantumS h = quantumS h"

definition getMultiDgt :: "hitOutput \<Rightarrow> (string \<rightharpoonup> cint list)" where
  "getMultiDgt h = multiDgt h"

text \<open>
  \<open>getIntRawVar\<close> and \<open>getIntDgtVar\<close> are not \<open>const\<close> and read with the subscript, so
  they return the record as they leave it together with the value.
\<close>

definition getIntRawVar :: "hitOutput \<Rightarrow> string \<Rightarrow> double \<times> hitOutput" where
  "getIntRawVar h s =
     (if map_contains (raws h) s
      then (let (v, m) = map_subscript double_zero (raws h) s in (v, h\<lparr>raws := m\<rparr>))
      else (Finite (- 99), h))"

definition getIntDgtVar :: "hitOutput \<Rightarrow> string \<Rightarrow> double \<times> hitOutput" where
  "getIntDgtVar h s =
     (if map_contains (dgtz h) s
      then (let (v, m) = map_subscript double_zero (dgtz h) s in (v, h\<lparr>dgtz := m\<rparr>))
      else (Finite (- 99), h))"

subsection \<open>Calling a getter: the returned container is a new object\<close>

text \<open>
  To say that a returned container is independent of the record, objects get addresses.
  The store is the list of the objects allocated so far and an address is an index into it.
  A getter returns by value: the call copy-constructs the container into a new object, which
  is allocated at the end of the store and belongs to the caller. The caller may then write
  anything through the address it holds.
\<close>

datatype container =
    StrDbl "string \<rightharpoonup> double"
  | StrVecDbl "string \<rightharpoonup> double list"
  | DblDbl "double \<rightharpoonup> double"
  | IntInt "cint \<rightharpoonup> cint"
  | StrVecInt "string \<rightharpoonup> cint list"

datatype object = HitObject hitOutput | ContainerObject container

type_synonym store = "object list"

datatype getter = GetRaws | GetDgtz | GetAllRaws | GetSignalVT | GetQuantumS | GetMultiDgt

fun run_getter :: "getter \<Rightarrow> hitOutput \<Rightarrow> container" where
  "run_getter GetRaws h = StrDbl (getRaws h)"
| "run_getter GetDgtz h = StrDbl (getDgtz h)"
| "run_getter GetAllRaws h = StrVecDbl (getAllRaws h)"
| "run_getter GetSignalVT h = DblDbl (getSignalVT h)"
| "run_getter GetQuantumS h = IntInt (getQuantumS h)"
| "run_getter GetMultiDgt h = StrVecInt (getMultiDgt h)"

definition call_getter :: "getter \<Rightarrow> store \<Rightarrow> nat \<Rightarrow> (nat \<times> store) option" where
  \<comment> \<open>\<open>this->g()\<close> on the record at address \<open>this\<close>: the address of the returned copy and the
      store with the copy in it; \<open>None\<close> when \<open>this\<close> is not the address of a hitOutput\<close>
  "call_getter g st this =
     (if this < length st
      then (case st ! this of
              HitObject h \<Rightarrow> Some (length st, st @ [ContainerObject (run_getter g h)])
            | ContainerObject _ \<Rightarrow> None)
      else None)"

definition returned :: "(nat \<times> store) option \<Rightarrow> object option" where
  \<comment> \<open>the object a call returned\<close>
  "returned r = (case r of None \<Rightarrow> None | Some (a, st) \<Rightarrow> if a < length st then Some (st ! a) else None)"

definition mutate :: "nat \<Rightarrow> (object \<Rightarrow> object) \<Rightarrow> store \<Rightarrow> store" where
  \<comment> \<open>the caller changes the object at address \<open>a\<close> in any way\<close>
  "mutate a f st = (if a < length st then st[a := f (st ! a)] else st)"

subsection \<open>class summaryForParticle\<close>

record summaryForParticle =
  dname :: string
  stat :: cint
  etot :: double
  t :: double
  nphe :: cint

definition new_summaryForParticle :: "string \<Rightarrow> summaryForParticle" where
  \<comment> \<open>the constructor \<open>summaryForParticle(string detector)\<close>\<close>
  "new_summaryForParticle detector =
     \<lparr>dname = detector, stat = 0, etot = Finite 0, t = Finite (- 1), nphe = 0\<rparr>"

subsection \<open>class generatedParticle\<close>

text \<open>
  \<open>G4ThreeVector\<close> is Geant4's vector of three doubles. The constructor of
  \<open>generatedParticle\<close> has no initialiser list and its body only clears \<open>pSum\<close>: the two
  vectors are what the default constructor of \<open>G4ThreeVector\<close> builds, \<open>pSum\<close> is default
  constructed, and the scalars \<open>PID\<close>, \<open>time\<close> and \<open>multiplicity\<close> are left with
  whatever the memory held. These values are the arguments of the model of the constructor.
\<close>

type_synonym G4ThreeVector = "double \<times> double \<times> double"

record generatedParticle =
  vertex :: G4ThreeVector
  momentum :: G4ThreeVector
  PID :: cint
  time :: double
  multiplicity :: cint
  pSum :: "summaryForParticle list"

definition vector_clear :: "'a list \<Rightarrow> 'a list" where
  \<comment> \<open>\<open>std::vector::clear\<close>\<close>
  "vector_clear v = []"

definition new_generatedParticle ::
  "G4ThreeVector \<Rightarrow> cint \<Rightarrow> double \<Rightarrow> cint \<Rightarrow> generatedParticle" where
  "new_generatedParticle v0 pid0 time0 mult0 =
     (let p = \<lparr>vertex = v0, momentum = v0, PID = pid0, time = time0,
                multiplicity = mult0, pSum = []\<rparr>
      in p\<lparr>pSum := vector_clear (pSum p)\<rparr>)"

section \<open>Parts of the repository that the header only declares\<close>

text \<open>
  The header declares \<open>getOutputFactory\<close>, \<open>registerOutputFactories\<close>, the two
  \<open>getVariableFromString\<close> members and the constructor and destructor of
  \<open>outputContainer\<close>; their bodies are in files that are not among the sources. They are
  modelled from the specification of the repository, each definition under a note that says so.
\<close>

subsection \<open>class outputFactory and its registry\<close>






subsection \<open>Named variables of a generatedParticle\<close>

datatype axis = AxisX | AxisY | AxisZ

fun component :: "axis \<Rightarrow> G4ThreeVector \<Rightarrow> double" where
  "component AxisX (x, y, z) = x"
| "component AxisY (x, y, z) = y"
| "component AxisZ (x, y, z) = z"

text \<open>
  The fields that the specification (4.2) lists for the lookup by name: the identity code for
  the integer lookup; the components of vertex and momentum and the time for the floating one.
\<close>

datatype int_variable = IdentityVar

datatype double_variable = VertexVar axis | MomentumVar axis | TimeVar

datatype variable_error = UnknownVariableName string

fun int_field :: "int_variable \<Rightarrow> generatedParticle \<Rightarrow> cint" where
  "int_field IdentityVar p = PID p"

fun double_field :: "double_variable \<Rightarrow> generatedParticle \<Rightarrow> double" where
  "double_field (VertexVar a) p = component a (vertex p)"
| "double_field (MomentumVar a) p = component a (momentum p)"
| "double_field TimeVar p = time p"

text \<open>
  Modelled from the spec: the body of \<open>generatedParticle::getVariableFromStringI\<close> is
  missing. The specification (4.2) says that it resolves a named variable to an integer by
  searching the vertex, momentum, identity and time fields, does not fall through to hit data,
  and must fail with a descriptible "unknown variable name" outcome on a key that is not
  recognised. The keys under which the fields are known are not given: the table of recognised
  names is the first argument.
\<close>

definition getVariableFromStringI ::
  "(string \<rightharpoonup> int_variable) \<Rightarrow> generatedParticle \<Rightarrow> string \<Rightarrow> variable_error + cint" where
  "getVariableFromStringI names p s =
     (case names s of
        None \<Rightarrow> Inl (UnknownVariableName s)
      | Some v \<Rightarrow> Inr (int_field v p))"

text \<open>
  Modelled from the spec: the body of \<open>generatedParticle::getVariableFromStringD\<close> is
  missing. It is the floating counterpart of \<open>getVariableFromStringI\<close>, under the same
  sentences of the specification (4.2).
\<close>

definition getVariableFromStringD ::
  "(string \<rightharpoonup> double_variable) \<Rightarrow> generatedParticle \<Rightarrow> string \<Rightarrow> variable_error + double" where
  "getVariableFromStringD names p s =
     (case names s of
        None \<Rightarrow> Inl (UnknownVariableName s)
      | Some v \<Rightarrow> Inr (double_field v p))"

subsection \<open>class outputContainer\<close>

















subsection \<open>Runs of a program that uses channels\<close>











section \<open>Examples\<close>

definition hit_example :: hitOutput where
  "hit_example =
     \<lparr>raws = [''E'' \<mapsto> Finite 2], dgtz = [''adc'' \<mapsto> Finite 105],
      allRaws = Map.empty, signalVT = Map.empty, quantumS = Map.empty, multiDgt = Map.empty\<rparr>"

definition particle_example :: generatedParticle where
  "particle_example =
     \<lparr>vertex = (Finite 0, Finite 0, Finite 0), momentum = (Finite 0, Finite 0, Finite 1),
      PID = 11, time = Finite 0, multiplicity = 1, pSum = []\<rparr>"










section \<open>Properties of hitOutput\<close>

lemma map_subscript_assign_upd: "map_subscript_assign dflt m k v = m(k \<mapsto> v)"
  by (simp add: map_subscript_assign_def map_subscript_def split: option.split)

lemmas getter_defs =
  getRaws_def getDgtz_def getAllRaws_def getSignalVT_def getQuantumS_def getMultiDgt_def

lemmas setter_defs =
  setRaws_def setDgtz_def setAllRaws_def setSignal_def setQuantumS_def setMultiDgt_def

text \<open>
  C1. A lookup by name that misses returns the sentinel: for every record and every key that
  is not in \<open>raws\<close>, \<open>getIntRawVar\<close> returns exactly -99, and for every key that is not in
  \<open>dgtz\<close>, \<open>getIntDgtVar\<close> returns exactly -99; for a key that is present the value
  stored under it is returned.
\<close>

theorem getIntVar_sentinel:
  "(raws h s = None \<longrightarrow> fst (getIntRawVar h s) = Finite (- 99)) \<and>
   (dgtz h s = None \<longrightarrow> fst (getIntDgtVar h s) = Finite (- 99)) \<and>
   (\<forall>v. raws h s = Some v \<longrightarrow> fst (getIntRawVar h s) = v) \<and>
   (\<forall>v. dgtz h s = Some v \<longrightarrow> fst (getIntDgtVar h s) = v)"
  by (simp add: getIntRawVar_def getIntDgtVar_def map_contains_def map_subscript_def)

theorem getIntVar_sentinel_witness:
  "raws hit_example ''adc'' = None \<and> fst (getIntRawVar hit_example ''adc'') = Finite (- 99) \<and>
   dgtz hit_example ''E'' = None \<and> fst (getIntDgtVar hit_example ''E'') = Finite (- 99) \<and>
   raws hit_example ''E'' = Some (Finite 2) \<and> fst (getIntRawVar hit_example ''E'') = Finite 2 \<and>
   dgtz hit_example ''adc'' = Some (Finite 105) \<and>
   fst (getIntDgtVar hit_example ''adc'') = Finite 105"
  using getIntVar_sentinel [of hit_example "''adc''"] getIntVar_sentinel [of hit_example "''E''"]
  by (simp add: hit_example_def)

text \<open>
  C8. \<open>getIntRawVar\<close> and \<open>getIntDgtVar\<close> leave the record as it was, for every record and
  every key: although the value is read with the subscript of the map, which inserts on a
  missing key, a miss adds no entry, since the subscript is only reached when the key is there.
\<close>

theorem getIntVar_leaves_record:
  "snd (getIntRawVar h s) = h \<and> snd (getIntDgtVar h s) = h \<and>
   map_contains (raws (snd (getIntRawVar h s))) s = map_contains (raws h) s \<and>
   map_contains (dgtz (snd (getIntDgtVar h s))) s = map_contains (dgtz h) s"
  by (auto simp: getIntRawVar_def getIntDgtVar_def map_contains_def map_subscript_def)

text \<open>
  C9. A whole-container setter followed by the matching getter is the identity: after
  \<open>setRaws(m)\<close>, \<open>getRaws()\<close> returns \<open>m\<close>, and likewise for the other five pairs.
\<close>

theorem set_then_get:
  "getRaws (setRaws h r) = r \<and> getDgtz (setDgtz h d) = d \<and>
   getAllRaws (setAllRaws h ar) = ar \<and> getSignalVT (setSignal h sv) = sv \<and>
   getQuantumS (setQuantumS h q) = q \<and> getMultiDgt (setMultiDgt h md) = md"
  by (simp add: getter_defs setter_defs)

text \<open>
  C3. Each whole-container setter replaces the container it names with its argument and
  leaves the other five as they were; each single-entry setter sets the one entry it names in
  its map and nothing else; the integer overloads store the integer widened to a double, so
  that \<open>getIntRawVar\<close> and \<open>getIntDgtVar\<close> on the same key return the value of the integer.
  Here \<open>g\<close> is any of the six getters.
\<close>

theorem setters_replace:
  "run_getter g (setRaws h r) = (if g = GetRaws then StrDbl r else run_getter g h) \<and>
   run_getter g (setDgtz h d) = (if g = GetDgtz then StrDbl d else run_getter g h) \<and>
   run_getter g (setAllRaws h ar) = (if g = GetAllRaws then StrVecDbl ar else run_getter g h) \<and>
   run_getter g (setSignal h sv) = (if g = GetSignalVT then DblDbl sv else run_getter g h) \<and>
   run_getter g (setQuantumS h q) = (if g = GetQuantumS then IntInt q else run_getter g h) \<and>
   run_getter g (setMultiDgt h md) = (if g = GetMultiDgt then StrVecInt md else run_getter g h) \<and>
   run_getter g (setOneRaw h s x) =
     (if g = GetRaws then StrDbl ((getRaws h)(s \<mapsto> x)) else run_getter g h) \<and>
   run_getter g (setOneDgt h s x) =
     (if g = GetDgtz then StrDbl ((getDgtz h)(s \<mapsto> x)) else run_getter g h) \<and>
   setOneRaw_int h s i = setOneRaw h s (Finite (real_of_int (sint i))) \<and>
   setOneDgt_int h s i = setOneDgt h s (Finite (real_of_int (sint i))) \<and>
   fst (getIntRawVar (setOneRaw_int h s i) s) = Finite (real_of_int (sint i)) \<and>
   fst (getIntDgtVar (setOneDgt_int h s i) s) = Finite (real_of_int (sint i))"
  by (cases g) (simp_all add: getter_defs setter_defs setOneRaw_def setOneDgt_def
      setOneRaw_int_def setOneDgt_int_def map_subscript_assign_upd double_of_int_def
      getIntRawVar_def getIntDgtVar_def map_contains_def map_subscript_def)

text \<open>
  C2. Each getter returns an independent copy. When a call of any getter on the record at
  \<open>this\<close> has returned its copy at address \<open>a\<close>, the caller may change the object at
  \<open>a\<close> in any way \<open>f\<close>: a later call of any getter \<open>g'\<close> on the same record still returns
  the container of the record, the same as without the change and the same as before.
\<close>

theorem getter_copy_independent:
  assumes "call_getter g st this = Some (a, st1)"
  shows "\<exists>h. st ! this = HitObject h \<and>
           returned (call_getter g st this) = Some (ContainerObject (run_getter g h)) \<and>
           returned (call_getter g' st this) = Some (ContainerObject (run_getter g' h)) \<and>
           returned (call_getter g' st1 this) = Some (ContainerObject (run_getter g' h)) \<and>
           returned (call_getter g' (mutate a f st1) this) =
             Some (ContainerObject (run_getter g' h))"
proof -
  from assms have lt: "this < length st"
    by (simp add: call_getter_def split: if_splits)
  with assms obtain h where h: "st ! this = HitObject h"
    by (cases "st ! this") (simp_all add: call_getter_def)
  from assms lt h have a: "a = length st" and st1: "st1 = st @ [ContainerObject (run_getter g h)]"
    by (simp_all add: call_getter_def)
  have m: "mutate a f (st @ [ContainerObject (run_getter g h)]) =
      st @ [f (ContainerObject (run_getter g h))]"
    by (simp add: mutate_def a)
  show ?thesis
    using lt h by (simp add: m st1 call_getter_def returned_def nth_append)
qed

theorem getter_copy_independent_witness:
  "call_getter GetRaws [HitObject hit_example] 0 =
     Some (1, [HitObject hit_example, ContainerObject (StrDbl (raws hit_example))]) \<and>
   returned (call_getter GetRaws
      (mutate 1 (\<lambda>_. ContainerObject (StrDbl Map.empty))
         [HitObject hit_example, ContainerObject (StrDbl (raws hit_example))]) 0)
     = Some (ContainerObject (StrDbl (raws hit_example)))"
proof -
  have c: "call_getter GetRaws [HitObject hit_example] 0 =
     Some (1, [HitObject hit_example, ContainerObject (StrDbl (raws hit_example))])"
    by (simp add: call_getter_def getRaws_def)
  from getter_copy_independent [OF c, of GetRaws "\<lambda>_. ContainerObject (StrDbl Map.empty)"] c
  show ?thesis by (simp add: getRaws_def)
qed

section \<open>Properties of the particle records\<close>

text \<open>
  C4. A summaryForParticle fresh from its constructor has \<open>stat\<close> 0, \<open>etot\<close> 0, a time
  \<open>t\<close> that is strictly negative, \<open>nphe\<close> 0 and the detector name it was given.
\<close>

theorem new_summaryForParticle_fields:
  "stat (new_summaryForParticle d) = 0 \<and> etot (new_summaryForParticle d) = Finite 0 \<and>
   double_less (t (new_summaryForParticle d)) (Finite 0) \<and> nphe (new_summaryForParticle d) = 0 \<and>
   dname (new_summaryForParticle d) = d"
  by (simp add: new_summaryForParticle_def)

text \<open>
  C10. A generatedParticle fresh from its constructor has an empty \<open>pSum\<close>, whatever the
  other members hold.
\<close>

theorem new_generatedParticle_pSum:
  "pSum (new_generatedParticle v0 pid0 time0 mult0) = []"
  by (simp add: new_generatedParticle_def vector_clear_def)

section \<open>Properties of the factory\<close>




section \<open>Properties of the lookup by name of a generatedParticle\<close>

text \<open>
  C6. For every generatedParticle, \<open>getVariableFromStringI\<close> and
  \<open>getVariableFromStringD\<close> on a string that is not a recognised name of a vertex, momentum,
  identity or time field yield the unknown-variable-name outcome, which carries the string
  that was asked for: no field and no hit data is read.
\<close>

theorem getVariableFromString_unknown:
  "(inames s = None \<longrightarrow> getVariableFromStringI inames p s = Inl (UnknownVariableName s)) \<and>
   (dnames s = None \<longrightarrow> getVariableFromStringD dnames p s = Inl (UnknownVariableName s))"
  by (simp add: getVariableFromStringI_def getVariableFromStringD_def)

theorem getVariableFromString_unknown_witness:
  "[''pid'' \<mapsto> IdentityVar] ''adc'' = None \<and>
   getVariableFromStringI [''pid'' \<mapsto> IdentityVar] particle_example ''adc'' =
     Inl (UnknownVariableName ''adc'') \<and>
   [''pz'' \<mapsto> MomentumVar AxisZ] ''adc'' = None \<and>
   getVariableFromStringD [''pz'' \<mapsto> MomentumVar AxisZ] particle_example ''adc'' =
     Inl (UnknownVariableName ''adc'')"
  using getVariableFromString_unknown
    [of "[''pid'' \<mapsto> IdentityVar]" "''adc''" particle_example "[''pz'' \<mapsto> MomentumVar AxisZ]"]
  by simp

section \<open>Properties of outputContainer\<close>



























end
